theory Spec2Isabelle
  imports Complex_Main "HOL-Library.AList" "HOL-Library.Log_Nat"
begin

section \<open>JavaScript values used by the gene utilities\<close>

text \<open>
  A JavaScript string is modelled as an Isabelle \<open>string\<close>, one \<open>char\<close> per code unit
  (the strings of code units below 256).
  A JavaScript number that may be \<open>NaN\<close> is a value of \<open>number\<close>; the integers that occur
  (bit fields of at most six bits, stat values below one hundred) are exact in a double.
\<close>

datatype number = Num int | NaN

text \<open>\<open>a + b\<close> on numbers, as \<open>stats.hp += bonus.hp\<close> computes it.\<close>

fun plus_number :: "number \<Rightarrow> number \<Rightarrow> number" where
  "plus_number (Num a) (Num b) = Num (a + b)"
| "plus_number _ _ = NaN"

text \<open>The white space that \<open>parseInt\<close> skips, among the code units below 256.\<close>

definition isWhiteSpace :: "char \<Rightarrow> bool" where
  "isWhiteSpace c = (of_char c \<in> {9, 10, 11, 12, 13, 32, 160 :: nat})"

text \<open>The value of a digit in any radix up to 36: \<open>0-9\<close>, \<open>a-z\<close>, \<open>A-Z\<close>.\<close>

definition digitValue :: "char \<Rightarrow> nat option" where
  "digitValue c =
     (let n = (of_char c :: nat) in
      if 48 \<le> n \<and> n \<le> 57 then Some (n - 48)
      else if 97 \<le> n \<and> n \<le> 122 then Some (n - 87)
      else if 65 \<le> n \<and> n \<le> 90 then Some (n - 55)
      else None)"

definition isRadixDigit :: "nat \<Rightarrow> char \<Rightarrow> bool" where
  "isRadixDigit radix c = (case digitValue c of None \<Rightarrow> False | Some v \<Rightarrow> v < radix)"

fun digitsValue :: "nat \<Rightarrow> nat \<Rightarrow> string \<Rightarrow> nat" where
  "digitsValue radix acc [] = acc"
| "digitsValue radix acc (c # cs) =
     digitsValue radix (acc * radix + (case digitValue c of None \<Rightarrow> 0 | Some v \<Rightarrow> v)) cs"

text \<open>
  \<open>parseInt(string, radix)\<close> for an explicit radix: skip leading white space, read a
  sign, skip \<open>0x\<close> when the radix is 16, read the longest run of digits of the radix;
  no digit gives \<open>NaN\<close>.
\<close>

definition parseInt :: "string \<Rightarrow> nat \<Rightarrow> number" where
  "parseInt string radix =
     (let S = dropWhile isWhiteSpace string;
          sign = (case S of c # _ \<Rightarrow> if c = CHR ''-'' then - 1 else 1 | [] \<Rightarrow> (1::int));
          S1 = (case S of c # cs \<Rightarrow> if c = CHR ''+'' \<or> c = CHR ''-'' then cs else S | [] \<Rightarrow> S);
          S2 = (if radix = 16 \<and> (take 2 S1 = ''0x'' \<or> take 2 S1 = ''0X'') then drop 2 S1 else S1);
          Z = takeWhile (isRadixDigit radix) S2
      in if radix < 2 \<or> 36 < radix then NaN
         else if Z = [] then NaN
         else Num (sign * int (digitsValue radix 0 Z)))"

definition digitChar :: "nat \<Rightarrow> char" where
  "digitChar v = (if v < 10 then char_of (48 + v) else char_of (87 + v))"

function natToString :: "nat \<Rightarrow> nat \<Rightarrow> string" where
  "natToString radix n =
     (if n < radix \<or> radix < 2 then [digitChar n]
      else natToString radix (n div radix) @ [digitChar (n mod radix)])"
  by pat_completeness auto
termination
  by (relation "measure (\<lambda>(radix, n). n)") auto

declare natToString.simps [simp del]

text \<open>\<open>Number.prototype.toString(radix)\<close> on an integer or \<open>NaN\<close>.\<close>

fun toString :: "number \<Rightarrow> nat \<Rightarrow> string" where
  "toString NaN radix = ''NaN''"
| "toString (Num i) radix =
     (if i < 0 then CHR ''-'' # natToString radix (nat (- i)) else natToString radix (nat i))"

text \<open>
  Arithmetic on numbers that are not integers. A finite binary64 value is modelled by
  the rational it denotes; \<open>x / y\<close> and \<open>x * y\<close> are the exact quotient and product
  rounded to the nearest value with a significand of 53 bits, ties to the even
  significand. \<open>binade x\<close> is the exponent \<open>e\<close> with \<open>2 ^ e \<le> x < 2 ^ (e + 1)\<close>. Overflow,
  subnormal results and division by zero are outside the model: the one computation
  that uses it stays between 1/6 and 100.
\<close>

definition pow2 :: "int \<Rightarrow> rat" where
  "pow2 e = (if 0 \<le> e then 2 ^ nat e else 1 / 2 ^ nat (- e))"

definition binade :: "rat \<Rightarrow> int" where
  "binade x =
     (let e = bitlen (fst (quotient_of x)) - bitlen (snd (quotient_of x))
      in if pow2 e \<le> x then e else e - 1)"

definition roundEven :: "rat \<Rightarrow> int" where
  "roundEven q =
     (let f = \<lfloor>q\<rfloor>; r = q - of_int f
      in if r < 1 / 2 then f else if 1 / 2 < r then f + 1 else if even f then f else f + 1)"

definition round64 :: "rat \<Rightarrow> rat" where
  "round64 x =
     (if x = 0 then 0
      else let m = \<bar>x\<bar>; e = binade m
           in sgn x * of_int (roundEven (m * pow2 (52 - e))) * pow2 (e - 52))"

definition fdiv :: "rat \<Rightarrow> rat \<Rightarrow> rat" where
  "fdiv x y = round64 (x / y)"

definition fmul :: "rat \<Rightarrow> rat \<Rightarrow> rat" where
  "fmul x y = round64 (x * y)"

text \<open>\<open>s.padStart(n, '0')\<close>, \<open>s.slice(a, b)\<close> for \<open>0 \<le> a \<le> b\<close>, \<open>s.startsWith(p)\<close>.\<close>

definition padStart :: "string \<Rightarrow> nat \<Rightarrow> char \<Rightarrow> string" where
  "padStart s n c = replicate (n - length s) c @ s"

definition slice :: "string \<Rightarrow> nat \<Rightarrow> nat \<Rightarrow> string" where
  "slice s a b = take (b - a) (drop a s)"

definition startsWith :: "string \<Rightarrow> string \<Rightarrow> bool" where
  "startsWith s p = (take (length p) s = p)"

section \<open>Constants of the game data\<close>

datatype AxieClass = beast | bug | bird | plant | aquatic | reptile | mech | dawn | dusk

text \<open>
  \<open>AXIE_CLASSES\<close> lists the nine names; the model pairs each name with the value of the
  union type, so that \<open>AXIE_CLASSES.includes(name)\<close> also yields the class.
\<close>

definition AXIE_CLASSES :: "(string \<times> AxieClass) list" where
  "AXIE_CLASSES =
     [(''beast'', beast), (''bug'', bug), (''bird'', bird), (''plant'', plant),
      (''aquatic'', aquatic), (''reptile'', reptile), (''mech'', mech), (''dawn'', dawn),
      (''dusk'', dusk)]"

text \<open>The string that a value of the union type \<open>AxieClass\<close> is at run time.\<close>

fun className :: "AxieClass \<Rightarrow> string" where
  "className beast = ''beast''"
| "className bug = ''bug''"
| "className bird = ''bird''"
| "className plant = ''plant''"
| "className aquatic = ''aquatic''"
| "className reptile = ''reptile''"
| "className mech = ''mech''"
| "className dawn = ''dawn''"
| "className dusk = ''dusk''"

definition CLASS_HEX :: "(string \<times> string) list" where
  "CLASS_HEX =
     [(''0000'', ''beast''), (''0001'', ''bug''), (''0010'', ''bird''), (''0011'', ''plant''),
      (''0100'', ''aquatic''), (''0101'', ''reptile''), (''1000'', ''mech''), (''1001'', ''dawn''),
      (''1010'', ''dusk'')]"

section \<open>Gene decoding (geneUtils.ts)\<close>

text \<open>
  The records keep the field names of the interfaces, but for \<open>id\<close>, \<open>name\<close> and \<open>class\<close>
  of an allele (\<open>allele_id\<close>, \<open>allele_name\<close>, \<open>allele_class\<close>), \<open>class\<close> of the decoded genes
  (\<open>genes_class\<close>) and \<open>back\<close> (\<open>back_part\<close>), which are reserved words. The interface
  \<open>{d, r1, r2}\<close> is one record for a part gene and for the pattern and color triples.
\<close>

record Allele =
  allele_id :: string
  allele_name :: string
  allele_class :: string

record 'a Triple =
  d :: 'a
  r1 :: 'a
  r2 :: 'a

type_synonym PartGene = "Allele Triple"

record DecodedGenes =
  genes_class :: AxieClass
  region :: string
  tag :: string
  bodySkin :: string
  pattern :: "string Triple"
  color :: "string Triple"
  eyes :: PartGene
  ears :: PartGene
  mouth :: PartGene
  horn :: PartGene
  back_part :: PartGene
  tail :: PartGene

text \<open>
  \<open>hexToBinary\<close>: the loop appends, for every character, \<open>parseInt(char, 16)\<close> written in
  base 2 and padded to four characters; a character that is no hex digit appends \<open>0NaN\<close>.
\<close>

definition hexToBinary :: "string \<Rightarrow> string" where
  "hexToBinary hexGene =
     (let cleanHex = (if startsWith hexGene ''0x'' then drop 2 hexGene else hexGene);
          binary = fold (\<lambda>char binary. binary @ padStart (toString (parseInt [char] 16) 2) 4 CHR ''0'')
                     cleanHex []
      in padStart binary 256 CHR ''0'')"

definition getClassFromGene :: "string \<Rightarrow> AxieClass" where
  "getClassFromGene binaryGene =
     (let classBits = slice binaryGene 0 4 in
      case map_of CLASS_HEX classBits of
        None \<Rightarrow> beast
      | Some name \<Rightarrow> (case map_of AXIE_CLASSES name of None \<Rightarrow> beast | Some c \<Rightarrow> c))"

definition decodePart :: "string \<Rightarrow> Allele" where
  "decodePart bits =
     (let classBits = slice bits 0 4;
          partIdBits = slice bits 4 10;
          partClass = (case map_of CLASS_HEX classBits of None \<Rightarrow> ''unknown'' | Some name \<Rightarrow> name);
          partId = toString (parseInt partIdBits 2) 10
      in \<lparr>allele_id = partId, allele_name = ''part-'' @ partId, allele_class = partClass\<rparr>)"

definition decodePartGene :: "string \<Rightarrow> PartGene" where
  "decodePartGene partBinary =
     \<lparr>d = decodePart (slice partBinary 0 12),
      r1 = decodePart (slice partBinary 12 24),
      r2 = decodePart (slice partBinary 24 36)\<rparr>"

text \<open>
  The error of a malformed gene. \<open>decodeGenes\<close> has no \<open>throw\<close> and calls nothing that
  throws on a string, so every path of the model ends in \<open>Inr\<close>; the sum type is what
  the \<open>try\<close>/\<open>catch\<close> of \<open>isValidGene\<close> inspects.
\<close>

datatype error = InvalidGeneFormat

definition decodeGenes :: "string \<Rightarrow> error + DecodedGenes" where
  "decodeGenes geneHex =
     (let binary = hexToBinary geneHex;
          axieClass = getClassFromGene binary;
          region' = toString (parseInt (slice binary 4 9) 2) 10;
          tag' = toString (parseInt (slice binary 9 13) 2) 10;
          bodySkin' = toString (parseInt (slice binary 13 17) 2) 10;
          pattern' = \<lparr>d = toString (parseInt (slice binary 17 23) 2) 10,
                      r1 = toString (parseInt (slice binary 23 29) 2) 10,
                      r2 = toString (parseInt (slice binary 29 35) 2) 10\<rparr>;
          color' = \<lparr>d = toString (parseInt (slice binary 35 41) 2) 10,
                    r1 = toString (parseInt (slice binary 41 47) 2) 10,
                    r2 = toString (parseInt (slice binary 47 53) 2) 10\<rparr>;
          offset = 64;
          partSize = 36;
          eyes' = decodePartGene (slice binary offset (offset + partSize));
          offset = offset + partSize;
          mouth' = decodePartGene (slice binary offset (offset + partSize));
          offset = offset + partSize;
          ears' = decodePartGene (slice binary offset (offset + partSize));
          offset = offset + partSize;
          horn' = decodePartGene (slice binary offset (offset + partSize));
          offset = offset + partSize;
          back' = decodePartGene (slice binary offset (offset + partSize));
          offset = offset + partSize;
          tail' = decodePartGene (slice binary offset (offset + partSize))
      in Inr \<lparr>genes_class = axieClass, region = region', tag = tag', bodySkin = bodySkin',
              pattern = pattern', color = color', eyes = eyes', ears = ears', mouth = mouth',
              horn = horn', back_part = back', tail = tail'\<rparr>)"

text \<open>
  \<open>isValidGene\<close>: the length test, the test of \<open>/^[0-9a-fA-F]+$/\<close>, then the call of
  \<open>decodeGenes\<close> inside \<open>try\<close>, whose \<open>catch\<close> returns \<open>false\<close>.
\<close>

definition isHexChar :: "char \<Rightarrow> bool" where
  "isHexChar c =
     (let n = (of_char c :: nat) in
      (48 \<le> n \<and> n \<le> 57) \<or> (97 \<le> n \<and> n \<le> 102) \<or> (65 \<le> n \<and> n \<le> 70))"

definition isValidGene :: "string \<Rightarrow> bool" where
  "isValidGene geneHex =
     (let cleanHex = (if startsWith geneHex ''0x'' then drop 2 geneHex else geneHex) in
      if length cleanHex \<noteq> 64 then False
      else if \<not> (cleanHex \<noteq> [] \<and> list_all isHexChar cleanHex) then False
      else (case decodeGenes geneHex of Inr _ \<Rightarrow> True | Inl _ \<Rightarrow> False))"

section \<open>Stats, purity and inheritance (geneUtils.ts)\<close>

text \<open>
  \<open>obj[key]\<close> on an object literal finds the literal's own properties and, failing that,
  the members every object inherits from \<open>Object.prototype\<close>; only a key that is
  neither is \<open>undefined\<close>. An inherited member is a function (or, for \<open>__proto__\<close>, the
  prototype object): it is truthy, and reading \<open>hp\<close>, \<open>speed\<close>, \<open>skill\<close> or \<open>morale\<close>
  from it gives \<open>undefined\<close>. The lookups in \<open>CLASS_HEX\<close> and \<open>CLASS_ADVANTAGES\<close> are
  plain \<open>map_of\<close>: their keys are bit strings of at most four characters and names of
  \<open>AxieClass\<close>, and none of these is an inherited name.
\<close>

datatype 'a property = Own 'a | Inherited | Missing

definition OBJECT_PROTOTYPE :: "string list" where
  "OBJECT_PROTOTYPE =
     [''constructor'', ''__defineGetter__'', ''__defineSetter__'', ''hasOwnProperty'',
      ''__lookupGetter__'', ''__lookupSetter__'', ''isPrototypeOf'', ''propertyIsEnumerable'',
      ''toString'', ''valueOf'', ''__proto__'', ''toLocaleString'']"

definition getProperty :: "(string \<times> 'a) list \<Rightarrow> string \<Rightarrow> 'a property" where
  "getProperty obj key =
     (case map_of obj key of
        Some v \<Rightarrow> Own v
      | None \<Rightarrow> if key \<in> set OBJECT_PROTOTYPE then Inherited else Missing)"

record AxieStats =
  hp :: number
  speed :: number
  skill :: number
  morale :: number

definition statsOf :: "int \<Rightarrow> int \<Rightarrow> int \<Rightarrow> int \<Rightarrow> AxieStats" where
  "statsOf h sp sk m = \<lparr>hp = Num h, speed = Num sp, skill = Num sk, morale = Num m\<rparr>"

text \<open>
  The four fields read from an object that has none of them. Each is \<open>undefined\<close>, and
  \<open>undefined + n\<close> and \<open>n + undefined\<close> are \<open>NaN\<close>; \<open>calculateStats\<close> only ever adds
  to such a field, so the model writes \<open>NaN\<close> at once.
\<close>

definition noStats :: AxieStats where
  "noStats = \<lparr>hp = NaN, speed = NaN, skill = NaN, morale = NaN\<rparr>"

definition BASE_STATS :: "(string \<times> AxieStats) list" where
  "BASE_STATS =
     [(''beast'', statsOf 31 35 31 43), (''bug'', statsOf 35 31 35 39),
      (''bird'', statsOf 27 43 35 35), (''plant'', statsOf 43 31 31 35),
      (''aquatic'', statsOf 39 39 35 27), (''reptile'', statsOf 39 35 31 35),
      (''mech'', statsOf 31 39 43 27), (''dawn'', statsOf 35 35 39 31),
      (''dusk'', statsOf 43 27 35 35)]"

definition PART_STAT_BONUS :: "(string \<times> AxieStats) list" where
  "PART_STAT_BONUS =
     [(''beast'', statsOf 0 1 0 3), (''bug'', statsOf 1 0 0 3), (''bird'', statsOf 0 3 0 1),
      (''plant'', statsOf 3 0 0 1), (''aquatic'', statsOf 1 3 0 0), (''reptile'', statsOf 3 1 0 0),
      (''mech'', statsOf 1 0 3 0), (''dawn'', statsOf 0 0 3 1), (''dusk'', statsOf 3 0 1 0)]"

text \<open>\<open>BASE_STATS[genes.class] || BASE_STATS.beast\<close>.\<close>

definition baseStatsFor :: "string \<Rightarrow> AxieStats" where
  "baseStatsFor cls =
     (case getProperty BASE_STATS cls of
        Own s \<Rightarrow> s
      | Inherited \<Rightarrow> noStats
      | Missing \<Rightarrow> statsOf 31 35 31 43)"

text \<open>\<open>PART_STAT_BONUS[partClass] || { hp: 0, speed: 0, skill: 0, morale: 0 }\<close>.\<close>

definition bonusFor :: "string \<Rightarrow> AxieStats" where
  "bonusFor partClass =
     (case getProperty PART_STAT_BONUS partClass of
        Own b \<Rightarrow> b
      | Inherited \<Rightarrow> noStats
      | Missing \<Rightarrow> statsOf 0 0 0 0)"

text \<open>The body parts in the order both calculators walk them.\<close>

definition parts :: "(DecodedGenes \<Rightarrow> PartGene) list" where
  "parts = [eyes, ears, mouth, horn, back_part, tail]"

definition calculateStats :: "DecodedGenes \<Rightarrow> AxieStats" where
  "calculateStats genes =
     (let baseStats = baseStatsFor (className (genes_class genes));
          stats = \<lparr>hp = hp baseStats, speed = speed baseStats, skill = skill baseStats,
                    morale = morale baseStats\<rparr>
      in fold (\<lambda>part stats.
                 let partGene = part genes;
                     partClass = allele_class (d partGene);
                     bonus = bonusFor partClass
                 in \<lparr>hp = plus_number (hp stats) (hp bonus),
                     speed = plus_number (speed stats) (speed bonus),
                     skill = plus_number (skill stats) (skill bonus),
                     morale = plus_number (morale stats) (morale bonus)\<rparr>)
              parts stats)"

text \<open>
  \<open>calculatePurity\<close>; the counter is an integer, the quotient and the product are
  binary64 operations, and the result is the rational that the returned double denotes.
\<close>

definition calculatePurity :: "DecodedGenes \<Rightarrow> rat" where
  "calculatePurity genes =
     (let axieClass = genes_class genes;
          totalParts = 6;
          matchingParts = fold (\<lambda>part matchingParts.
                                  let partGene = part genes in
                                  if allele_class (d partGene) = className axieClass
                                  then matchingParts + 1 else matchingParts)
                               parts (0::nat)
      in fmul (fdiv (of_nat matchingParts) totalParts) 100)"

text \<open>
  \<open>calculateBreedingProbability\<close>. The weights 0.375, 0.09375 and 0.03125 are 3/8, 3/32
  and 1/32: they and every sum of them are exact in a double. The \<open>Map\<close> is an
  association list in insertion order; \<open>set\<close> on a key already present replaces its value
  in place.
\<close>

definition geneKey :: "Allele \<Rightarrow> string" where
  "geneKey gene = allele_class gene @ ''-'' @ allele_id gene"

definition allGenes :: "PartGene \<Rightarrow> PartGene \<Rightarrow> (Allele \<times> rat) list" where
  "allGenes parent1Gene parent2Gene =
     (let weights = \<lparr>d = 3 / 8, r1 = 3 / 32, r2 = 1 / 32\<rparr> in
      [(d parent1Gene, d weights), (r1 parent1Gene, r1 weights), (r2 parent1Gene, r2 weights),
       (d parent2Gene, d weights), (r1 parent2Gene, r1 weights), (r2 parent2Gene, r2 weights)])"

definition setProbability :: "Allele \<times> rat \<Rightarrow> (string \<times> rat) list \<Rightarrow> (string \<times> rat) list" where
  "setProbability entry probabilities =
     (let key = geneKey (fst entry);
          currentProb = (case map_of probabilities key of None \<Rightarrow> 0 | Some p \<Rightarrow> p)
      in AList.update key (currentProb + snd entry) probabilities)"

definition calculateBreedingProbability :: "PartGene \<Rightarrow> PartGene \<Rightarrow> (string \<times> rat) list" where
  "calculateBreedingProbability parent1Gene parent2Gene =
     fold setProbability (allGenes parent1Gene parent2Gene) []"

section \<open>Breeding and class advantage (axieUtils.ts)\<close>

definition CLASS_ADVANTAGES :: "(string \<times> string list) list" where
  "CLASS_ADVANTAGES =
     [(''beast'', [''plant'', ''reptile'', ''dusk'']),
      (''bug'', [''beast'', ''mech'', ''dawn'']),
      (''bird'', [''bug'', ''aquatic'', ''dawn'']),
      (''plant'', [''bird'', ''aquatic'', ''dawn'']),
      (''aquatic'', [''beast'', ''bug'', ''mech'']),
      (''reptile'', [''bird'', ''plant'', ''aquatic'']),
      (''mech'', [''beast'', ''bug'', ''bird'']),
      (''dawn'', [''plant'', ''reptile'', ''aquatic'']),
      (''dusk'', [''bug'', ''bird'', ''beast''])]"

definition AXS_PER_BREED :: rat where
  "AXS_PER_BREED = 1 / 2"

definition SLP_BY_BREED_COUNT :: "int list" where
  "SLP_BY_BREED_COUNT = [900, 1350, 2250, 3600, 5850, 9450, 15300]"

definition MAX_BREED_COUNT :: int where
  "MAX_BREED_COUNT = 7"

text \<open>
  The fields of an \<open>Axie\<close>, with \<open>axie_id\<close>, \<open>axie_name\<close> and \<open>axie_class\<close> for \<open>id\<close>, \<open>name\<close>
  and \<open>class\<close>; \<open>breedCount\<close> and \<open>stage\<close> are integers.
\<close>

record Axie =
  axie_id :: string
  axie_name :: "string option"
  axie_class :: AxieClass
  genes :: string
  bornAt :: int
  matronId :: string
  sireId :: string
  breedCount :: int
  owner :: string
  stage :: int
  image :: "string option"

text \<open>
  \<open>BreedingInfo\<close> without \<open>totalCostUsd\<close> and \<open>cooldownEnd\<close>, which nothing assigns; its
  \<open>canBreed\<close> and \<open>reason\<close> are \<open>info_canBreed\<close> and \<open>info_reason\<close>, and those of the result
  of \<open>canBreedTogether\<close> are \<open>pair_canBreed\<close> and \<open>pair_reason\<close>. An absent \<open>reason\<close> is
  \<open>None\<close>.
\<close>

record BreedingInfo =
  info_canBreed :: bool
  axsCost :: rat
  slpCost :: int
  info_reason :: "string option"

record BreedingCost =
  cost_axs :: rat
  cost_slp :: int

record Eligibility =
  pair_canBreed :: bool
  pair_reason :: "string option"

text \<open>\<open>BREEDING_COSTS.SLP_BY_BREED_COUNT[n] || 0\<close>: outside the array the read is \<open>undefined\<close>.\<close>

definition slpCostOf :: "int \<Rightarrow> int" where
  "slpCostOf n =
     (if 0 \<le> n \<and> n < int (length SLP_BY_BREED_COUNT) then SLP_BY_BREED_COUNT ! nat n else 0)"

definition canBreed :: "Axie \<Rightarrow> BreedingInfo" where
  "canBreed axie =
     (if breedCount axie \<ge> MAX_BREED_COUNT then
        \<lparr>info_canBreed = False, axsCost = 0, slpCost = 0,
         info_reason = Some ''Maximum breed count reached (7)''\<rparr>
      else if stage axie < 4 then
        \<lparr>info_canBreed = False, axsCost = 0, slpCost = 0,
         info_reason = Some ''Axie must be an adult to breed''\<rparr>
      else
        \<lparr>info_canBreed = True, axsCost = AXS_PER_BREED, slpCost = slpCostOf (breedCount axie),
         info_reason = None\<rparr>)"

definition calculateBreedingCost :: "Axie \<Rightarrow> Axie \<Rightarrow> BreedingCost" where
  "calculateBreedingCost axie1 axie2 =
     (let slp1 = slpCostOf (breedCount axie1);
          slp2 = slpCostOf (breedCount axie2)
      in \<lparr>cost_axs = AXS_PER_BREED, cost_slp = slp1 + slp2\<rparr>)"

text \<open>\<open>${breed.reason}\<close> inside a template string.\<close>

definition reasonText :: "string option \<Rightarrow> string" where
  "reasonText r = (case r of None \<Rightarrow> ''undefined'' | Some s \<Rightarrow> s)"

definition canBreedTogether :: "Axie \<Rightarrow> Axie \<Rightarrow> Eligibility" where
  "canBreedTogether axie1 axie2 =
     (if axie_id axie1 = axie_id axie2 then
        \<lparr>pair_canBreed = False, pair_reason = Some ''Cannot breed Axie with itself''\<rparr>
      else if axie_id axie1 = matronId axie2 \<or> axie_id axie1 = sireId axie2 then
        \<lparr>pair_canBreed = False, pair_reason = Some ''Cannot breed with parent''\<rparr>
      else if axie_id axie2 = matronId axie1 \<or> axie_id axie2 = sireId axie1 then
        \<lparr>pair_canBreed = False, pair_reason = Some ''Cannot breed with parent''\<rparr>
      else if matronId axie1 = matronId axie2 \<and> sireId axie1 = sireId axie2
              \<and> matronId axie1 \<noteq> ''0'' \<and> sireId axie1 \<noteq> ''0'' then
        \<lparr>pair_canBreed = False, pair_reason = Some ''Cannot breed siblings''\<rparr>
      else
        let breed1 = canBreed axie1 in
        if \<not> info_canBreed breed1 then
          \<lparr>pair_canBreed = False,
           pair_reason = Some (''Axie '' @ axie_id axie1 @ '': '' @ reasonText (info_reason breed1))\<rparr>
        else
          let breed2 = canBreed axie2 in
          if \<not> info_canBreed breed2 then
            \<lparr>pair_canBreed = False,
             pair_reason = Some (''Axie '' @ axie_id axie2 @ '': '' @ reasonText (info_reason breed2))\<rparr>
          else \<lparr>pair_canBreed = True, pair_reason = None\<rparr>)"

text \<open>
  \<open>getClassAdvantage\<close>; 1.15 and 0.85 are the rationals 115/100 and 85/100 (three
  distinct doubles, as the three rationals are distinct).
\<close>

definition getClassAdvantage :: "AxieClass \<Rightarrow> AxieClass \<Rightarrow> rat" where
  "getClassAdvantage attackerClass defenderClass =
     (let advantages = (case map_of CLASS_ADVANTAGES (className attackerClass) of
                          None \<Rightarrow> [] | Some l \<Rightarrow> l)
      in if className defenderClass \<in> set advantages then 115 / 100
         else
           let defenderAdvantages = (case map_of CLASS_ADVANTAGES (className defenderClass) of
                                       None \<Rightarrow> [] | Some l \<Rightarrow> l)
           in if className attackerClass \<in> set defenderAdvantages then 85 / 100
              else 1)"

section \<open>Notions of the specification\<close>

text \<open>
  The pattern \<open>^(0x)?[0-9a-fA-F]{64}$\<close>: sixty-four hex digits, or \<open>0x\<close> and then
  sixty-four hex digits.
\<close>

definition matchesGenePattern :: "string \<Rightarrow> bool" where
  "matchesGenePattern s =
     ((length s = 64 \<and> list_all isHexChar s) \<or>
      (take 2 s = ''0x'' \<and> length (drop 2 s) = 64 \<and> list_all isHexChar (drop 2 s)))"

text \<open>
  The number of body parts whose dominant allele has the class of the Axie.
\<close>

definition matchingParts :: "DecodedGenes \<Rightarrow> nat" where
  "matchingParts g =
     length (filter (\<lambda>p. allele_class (d p) = className (genes_class g))
               [eyes g, ears g, mouth g, horn g, back_part g, tail g])"

text \<open>
  The conditions of the eligibility rule that fail for a pair of Axies: breeding with
  itself, one being a parent of the other, being siblings, and for each of the two a
  breed count of seven or more and a stage below four. Each is given as the reason
  \<open>canBreedTogether\<close> words it with.
\<close>

definition failingConditions :: "Axie \<Rightarrow> Axie \<Rightarrow> string list" where
  "failingConditions axie1 axie2 =
     (if axie_id axie1 = axie_id axie2 then [''Cannot breed Axie with itself''] else []) @
     (if axie_id axie1 = matronId axie2 \<or> axie_id axie1 = sireId axie2
      then [''Cannot breed with parent''] else []) @
     (if axie_id axie2 = matronId axie1 \<or> axie_id axie2 = sireId axie1
      then [''Cannot breed with parent''] else []) @
     (if matronId axie1 = matronId axie2 \<and> sireId axie1 = sireId axie2
         \<and> matronId axie1 \<noteq> ''0'' \<and> sireId axie1 \<noteq> ''0''
      then [''Cannot breed siblings''] else []) @
     (if 7 \<le> breedCount axie1
      then [''Axie '' @ axie_id axie1 @ '': Maximum breed count reached (7)''] else []) @
     (if stage axie1 < 4
      then [''Axie '' @ axie_id axie1 @ '': Axie must be an adult to breed''] else []) @
     (if 7 \<le> breedCount axie2
      then [''Axie '' @ axie_id axie2 @ '': Maximum breed count reached (7)''] else []) @
     (if stage axie2 < 4
      then [''Axie '' @ axie_id axie2 @ '': Axie must be an adult to breed''] else [])"

text \<open>A text mentions a message when the message occurs in it.\<close>

definition mentions :: "string \<Rightarrow> string \<Rightarrow> bool" where
  "mentions text m = list_ex (\<lambda>i. take (length m) (drop i text) = m) [0..<Suc (length text)]"

definition reportsEvery :: "Eligibility \<Rightarrow> string list \<Rightarrow> bool" where
  "reportsEvery result ms =
     list_all (\<lambda>m. case pair_reason result of None \<Rightarrow> False | Some r \<Rightarrow> mentions r m) ms"

text \<open>
  The seven doubles that \<open>(k / 6) * 100\<close> evaluates to for \<open>k\<close> from 0 to 6: 0,
  16.666666666666664, 33.33333333333333, 50, 66.66666666666666, 83.33333333333334 and
  100.
\<close>

definition purityDoubles :: "rat list" where
  "purityDoubles =
     [0, 2345624805922133 / 140737488355328, 2345624805922133 / 70368744177664, 50,
      2345624805922133 / 35184372088832, 2932031007402667 / 35184372088832, 100]"

text \<open>
  The (class, part-id) pair of an allele, and the weights of the alleles, among the six
  weighted ones, that have a given pair. A part gene is hyphen-free when the class of
  none of its three alleles contains a hyphen.
\<close>

definition pairOf :: "Allele \<Rightarrow> string \<times> string" where
  "pairOf a = (allele_class a, allele_id a)"

definition pairWeights :: "string \<times> string \<Rightarrow> (Allele \<times> rat) list \<Rightarrow> rat list" where
  "pairWeights p es = map snd (filter (\<lambda>e. pairOf (fst e) = p) es)"

definition hyphenFree :: "PartGene \<Rightarrow> bool" where
  "hyphenFree p =
     (CHR ''-'' \<notin> set (allele_class (d p)) \<and> CHR ''-'' \<notin> set (allele_class (r1 p)) \<and>
      CHR ''-'' \<notin> set (allele_class (r2 p)))"

text \<open>
  The binary expansion of a hex string, most significant bit first, four bits a digit;
  the number a bit string denotes; and the fields of the layout: the decimal text of the
  bits \<open>[a, b)\<close>, the class code at \<open>a\<close>, the allele whose twelve bits start at \<open>a\<close> (four
  bits of class code, six bits of part id), the part whose three alleles start at \<open>a\<close>.
\<close>

definition hexDigit :: "char \<Rightarrow> nat" where
  "hexDigit c =
     (let n = (of_char c :: nat) in
      if n \<le> 57 then n - 48 else if n \<le> 70 then n - 55 else n - 87)"

definition nibbleBits :: "nat \<Rightarrow> string" where
  "nibbleBits v = map (\<lambda>i. if odd (v div 2 ^ i) then CHR ''1'' else CHR ''0'') [3, 2, 1, 0]"

definition binaryExpansion :: "string \<Rightarrow> string" where
  "binaryExpansion hex = concat (map (\<lambda>c. nibbleBits (hexDigit c)) hex)"

definition bitsValue :: "string \<Rightarrow> nat" where
  "bitsValue bs = foldl (\<lambda>n c. 2 * n + (if c = CHR ''1'' then 1 else 0)) 0 bs"

definition bitField :: "string \<Rightarrow> nat \<Rightarrow> nat \<Rightarrow> string" where
  "bitField B a b = natToString 10 (bitsValue (slice B a b))"

definition classCode :: "string \<Rightarrow> nat \<Rightarrow> string option" where
  "classCode B a = map_of CLASS_HEX (slice B a (a + 4))"

definition alleleAt :: "string \<Rightarrow> nat \<Rightarrow> Allele" where
  "alleleAt B a =
     \<lparr>allele_id = bitField B (a + 4) (a + 10),
      allele_name = ''part-'' @ bitField B (a + 4) (a + 10),
      allele_class = (case classCode B a of None \<Rightarrow> ''unknown'' | Some name \<Rightarrow> name)\<rparr>"

definition partAt :: "string \<Rightarrow> nat \<Rightarrow> PartGene" where
  "partAt B a = \<lparr>d = alleleAt B a, r1 = alleleAt B (a + 12), r2 = alleleAt B (a + 24)\<rparr>"

definition undecoded :: Allele where
  "undecoded = \<lparr>allele_id = ''NaN'', allele_name = ''part-NaN'', allele_class = ''unknown''\<rparr>"

definition cleanHexOf :: "string \<Rightarrow> string" where
  "cleanHexOf h = (if take 2 h = ''0x'' then drop 2 h else h)"

text \<open>
  The stats as the two tables give them: the entry of the class in the base table (that
  of \<open>beast\<close> when there is none) plus, for each of the six parts, the entry of the class
  of its dominant allele in the bonus table (zero when there is none).
\<close>

definition addStats :: "AxieStats \<Rightarrow> AxieStats \<Rightarrow> AxieStats" where
  "addStats a b =
     \<lparr>hp = plus_number (hp a) (hp b), speed = plus_number (speed a) (speed b),
      skill = plus_number (skill a) (skill b), morale = plus_number (morale a) (morale b)\<rparr>"

definition tableBase :: "AxieClass \<Rightarrow> AxieStats" where
  "tableBase c =
     (case map_of BASE_STATS (className c) of Some s \<Rightarrow> s | None \<Rightarrow> statsOf 31 35 31 43)"

definition tableBonus :: "string \<Rightarrow> AxieStats" where
  "tableBonus c =
     (case map_of PART_STAT_BONUS c of Some b \<Rightarrow> b | None \<Rightarrow> statsOf 0 0 0 0)"

definition tableStats :: "DecodedGenes \<Rightarrow> AxieStats" where
  "tableStats g =
     foldl addStats (tableBase (genes_class g))
       (map (\<lambda>p. tableBonus (allele_class (d p)))
          [eyes g, ears g, mouth g, horn g, back_part g, tail g])"

text \<open>The weights of the entries of a list whose key string is \<open>k\<close>.\<close>

definition keyWeights :: "string \<Rightarrow> (Allele \<times> rat) list \<Rightarrow> rat list" where
  "keyWeights k es = map snd (filter (\<lambda>e. geneKey (fst e) = k) es)"

section \<open>Sample inputs\<close>

definition axieOf :: "string \<Rightarrow> string \<Rightarrow> string \<Rightarrow> int \<Rightarrow> int \<Rightarrow> Axie" where
  "axieOf i m s n st =
     \<lparr>axie_id = i, axie_name = None, axie_class = beast, genes = [], bornAt = 0,
      matronId = m, sireId = s, breedCount = n, owner = [], stage = st, image = None\<rparr>"

definition alleleOf :: "string \<Rightarrow> Allele" where
  "alleleOf cls = \<lparr>allele_id = ''0'', allele_name = ''part-0'', allele_class = cls\<rparr>"

definition partOf :: "string \<Rightarrow> string \<Rightarrow> string \<Rightarrow> PartGene" where
  "partOf c c1 c2 = \<lparr>d = alleleOf c, r1 = alleleOf c1, r2 = alleleOf c2\<rparr>"

text \<open>A beast whose parts are all beast parts, but for the dominant allele of the eyes.\<close>

definition beastWithEyes :: "string \<Rightarrow> DecodedGenes" where
  "beastWithEyes cls =
     \<lparr>genes_class = beast, region = ''0'', tag = ''0'', bodySkin = ''0'',
      pattern = \<lparr>d = ''0'', r1 = ''0'', r2 = ''0''\<rparr>,
      color = \<lparr>d = ''0'', r1 = ''0'', r2 = ''0''\<rparr>,
      eyes = partOf cls ''beast'' ''beast'',
      ears = partOf ''beast'' ''beast'' ''beast'',
      mouth = partOf ''beast'' ''beast'' ''beast'',
      horn = partOf ''beast'' ''beast'' ''beast'',
      back_part = partOf ''beast'' ''beast'' ''beast'',
      tail = partOf ''beast'' ''beast'' ''beast''\<rparr>"

text \<open>The 36 bits of two parts, as \<open>decodeGenes\<close> slices them.\<close>

definition bitsBugBugBird :: string where
  "bitsBugBugBird = ''000100000100000100000100001000000100''"

definition bitsBugPlantBug :: string where
  "bitsBugPlantBug = ''000100000100001100000100000100000100''"

definition allOnes :: string where
  "allOnes = ''0x1111111111111111111111111111111111111111111111111111111111111111''"

section \<open>Gene validation\<close>

lemma startsWith_0x: "startsWith s ''0x'' = (take 2 s = ''0x'')"
  by (simp add: startsWith_def numeral_2_eq_2)

lemma x_not_hex: "\<not> isHexChar CHR ''x''"
  by (simp add: isHexChar_def)

lemma prefixed_not_hex: "take 2 s = ''0x'' \<Longrightarrow> \<not> list_all isHexChar s"
proof -
  assume "take 2 s = ''0x''"
  then obtain t where "s = CHR ''0'' # CHR ''x'' # t"
    by (cases s; cases "tl s") (auto split: if_splits)
  then show ?thesis by (simp add: x_not_hex)
qed

lemma decodeGenes_returns: "\<exists>g. decodeGenes s = Inr g"
  by (simp add: decodeGenes_def Let_def)

lemma matchesGenePattern_allOnes: "matchesGenePattern allOnes"
  by (simp add: matchesGenePattern_def allOnes_def isHexChar_def)

lemma not_matchesGenePattern_invalid: "\<not> matchesGenePattern ''invalid''"
  by (simp add: matchesGenePattern_def)

lemma isValidGene_rejects: "\<not> matchesGenePattern s \<Longrightarrow> \<not> isValidGene s"
  by (auto simp add: isValidGene_def matchesGenePattern_def startsWith_0x split: if_splits)

text \<open>
  C9. \<open>isValidGene\<close> returns a boolean for every string (the \<open>catch\<close> turns any
  exception into \<open>false\<close>), and the boolean is \<open>true\<close> exactly for the strings that
  match \<open>^(0x)?[0-9a-fA-F]{64}$\<close>.
\<close>

theorem isValidGene_iff_pattern: "isValidGene s = matchesGenePattern s"
proof (cases "take 2 s = ''0x''")
  case True
  then have "\<not> list_all isHexChar s" by (rule prefixed_not_hex)
  moreover obtain g where "decodeGenes s = Inr g" using decodeGenes_returns by blast
  ultimately show ?thesis using True
    by (auto simp add: isValidGene_def matchesGenePattern_def startsWith_0x)
next
  case False
  obtain g where "decodeGenes s = Inr g" using decodeGenes_returns by blast
  then show ?thesis using False
    by (auto simp add: isValidGene_def matchesGenePattern_def startsWith_0x)
qed

theorem isValidGene_iff_pattern_witness:
  "isValidGene allOnes \<and> \<not> isValidGene ''invalid''"
  using isValidGene_iff_pattern [of allOnes] isValidGene_iff_pattern [of "''invalid''"]
    matchesGenePattern_allOnes not_matchesGenePattern_invalid
  by simp

section \<open>Gene decoding\<close>

lemma natToString_binary_length: "n < 2 ^ k \<Longrightarrow> 0 < k \<Longrightarrow> length (natToString 2 n) \<le> k"
proof (induction k arbitrary: n)
  case 0
  then show ?case by simp
next
  case (Suc k)
  show ?case
  proof (cases "n < 2")
    case True
    then show ?thesis by (simp add: natToString.simps [of 2 n])
  next
    case False
    then have k: "0 < k" using Suc.prems by (cases k) auto
    have "n div 2 < 2 ^ k" using Suc.prems by auto
    then have "length (natToString 2 (n div 2)) \<le> k" using k by (rule Suc.IH)
    then show ?thesis using False by (simp add: natToString.simps [of 2 n])
  qed
qed

text \<open>A single character read in radix 16 is \<open>NaN\<close> or a value below sixteen.\<close>

lemma parseInt_char_cases:
  "parseInt [c] 16 = NaN \<or> (\<exists>v<16. parseInt [c] 16 = Num (int v))"
proof (cases "isWhiteSpace c \<or> c = CHR ''+'' \<or> c = CHR ''-'' \<or> \<not> isRadixDigit 16 c")
  case True
  then have "parseInt [c] 16 = NaN"
    by (auto simp add: parseInt_def Let_def)
  then show ?thesis by simp
next
  case False
  then obtain v where v: "digitValue c = Some v" "v < 16"
    by (auto simp add: isRadixDigit_def split: option.splits)
  with False have "parseInt [c] 16 = Num (int v)"
    by (simp add: parseInt_def Let_def)
  with v show ?thesis by blast
qed

text \<open>Every character, hex digit or not, adds four characters to the binary string.\<close>

lemma nibble_length: "length (padStart (toString (parseInt [c] 16) 2) 4 CHR ''0'') = 4"
proof -
  consider "parseInt [c] 16 = NaN" | v where "v < 16" "parseInt [c] 16 = Num (int v)"
    using parseInt_char_cases [of c] by blast
  then show ?thesis
  proof cases
    case 1
    then show ?thesis by (simp add: padStart_def)
  next
    case 2
    have "length (natToString 2 v) \<le> 4"
      using natToString_binary_length [of v 4] 2(1) by simp
    with 2 show ?thesis by (simp add: padStart_def)
  qed
qed

lemma fold_append_concat: "fold (\<lambda>x acc. acc @ f x) xs ys = ys @ concat (map f xs)"
  by (induction xs arbitrary: ys) simp_all

lemma length_concat_const:
  "(\<And>x. length (f x) = k) \<Longrightarrow> length (concat (map f xs)) = k * length xs"
  by (induction xs) simp_all

lemma hexToBinary_length:
  "length (hexToBinary h) = max 256 (4 * length (if startsWith h ''0x'' then drop 2 h else h))"
proof -
  let ?clean = "if startsWith h ''0x'' then drop 2 h else h"
  let ?f = "\<lambda>char. padStart (toString (parseInt [char] 16) 2) 4 CHR ''0''"
  have bin: "hexToBinary h = padStart (concat (map ?f ?clean)) 256 CHR ''0''"
    unfolding hexToBinary_def Let_def fold_append_concat by simp
  have "length (concat (map ?f ?clean)) = 4 * length ?clean"
    by (rule length_concat_const) (rule nibble_length)
  then show ?thesis
    unfolding bin by (simp add: padStart_def)
qed

lemma matches_clean_length:
  "matchesGenePattern h \<Longrightarrow> length (if startsWith h ''0x'' then drop 2 h else h) = 64"
  by (auto simp add: matchesGenePattern_def startsWith_0x dest: prefixed_not_hex)

text \<open>An allele decoded from an empty window.\<close>

lemma decodePart_empty:
  "decodePart [] = \<lparr>allele_id = ''NaN'', allele_name = ''part-NaN'', allele_class = ''unknown''\<rparr>"
  by (simp add: decodePart_def slice_def CLASS_HEX_def parseInt_def Let_def)

text \<open>
  The tail is sliced at \<open>[244, 280)\<close>, but a binary string of 256 characters ends at 256:
  the slice holds twelve characters, and the windows of both recessive alleles are empty.
\<close>

lemma tail_recessive_windows:
  "length binary = 256 \<Longrightarrow>
   slice (slice binary 244 280) 12 24 = [] \<and> slice (slice binary 244 280) 24 36 = []"
  by (simp add: slice_def)

lemma decodeGenes_tail:
  assumes "length (if startsWith h ''0x'' then drop 2 h else h) \<le> 64"
  shows "\<exists>g. decodeGenes h = Inr g \<and> r1 (tail g) = decodePart [] \<and> r2 (tail g) = decodePart []"
proof -
  have "length (hexToBinary h) = 256"
    using assms by (simp add: hexToBinary_length del: One_nat_def)
  then have "slice (slice (hexToBinary h) 244 280) 12 24 = [] \<and>
             slice (slice (hexToBinary h) 244 280) 24 36 = []"
    by (rule tail_recessive_windows)
  then show ?thesis
    by (simp add: decodeGenes_def Let_def decodePartGene_def)
qed

text \<open>
  The layout of a valid gene: the binary string is the expansion of the sixty-four hex
  digits, and every field but the recessive alleles of the tail is cut from it at its
  fixed offset.
\<close>

lemma hex_char_value:
  "isHexChar c \<Longrightarrow>
   \<not> isWhiteSpace c \<and> c \<noteq> CHR ''+'' \<and> c \<noteq> CHR ''-'' \<and>
   digitValue c = Some (hexDigit c) \<and> hexDigit c < 16"
  by (auto simp add: isHexChar_def isWhiteSpace_def digitValue_def hexDigit_def Let_def)

lemma parseInt_hex_char: "isHexChar c \<Longrightarrow> parseInt [c] 16 = Num (int (hexDigit c))"
  using hex_char_value [of c] by (simp add: parseInt_def Let_def isRadixDigit_def)

lemma nibbles_upto_16:
  "list_all (\<lambda>v. padStart (natToString 2 v) 4 CHR ''0'' = nibbleBits v) [0..<16]"
  by code_simp

lemma nibble_bits: "v < 16 \<Longrightarrow> padStart (natToString 2 v) 4 CHR ''0'' = nibbleBits v"
  using nibbles_upto_16 by (simp add: list_all_iff)

lemma nibble_hex_char:
  "isHexChar c \<Longrightarrow> padStart (toString (parseInt [c] 16) 2) 4 CHR ''0'' = nibbleBits (hexDigit c)"
  using hex_char_value [of c] by (simp add: parseInt_hex_char nibble_bits)

lemma binaryExpansion_bits: "set (binaryExpansion hex) \<subseteq> {CHR ''0'', CHR ''1''}"
  by (auto simp add: binaryExpansion_def nibbleBits_def)

lemma binaryExpansion_length: "length (binaryExpansion hex) = 4 * length hex"
  unfolding binaryExpansion_def
  by (rule length_concat_const) (simp add: nibbleBits_def)

lemma concat_nibbles:
  "list_all isHexChar xs \<Longrightarrow>
   concat (map (\<lambda>char. padStart (toString (parseInt [char] 16) 2) 4 CHR ''0'') xs) =
   binaryExpansion xs"
  by (induction xs) (simp_all add: binaryExpansion_def nibble_hex_char del: toString.simps)

lemma matches_clean_hex:
  "matchesGenePattern h \<Longrightarrow> list_all isHexChar (if startsWith h ''0x'' then drop 2 h else h)"
  by (auto simp add: matchesGenePattern_def startsWith_0x dest: prefixed_not_hex)

lemma hexToBinary_valid:
  assumes "matchesGenePattern h"
  shows "hexToBinary h = binaryExpansion (if startsWith h ''0x'' then drop 2 h else h)"
proof -
  let ?clean = "if startsWith h ''0x'' then drop 2 h else h"
  let ?f = "\<lambda>char. padStart (toString (parseInt [char] 16) 2) 4 CHR ''0''"
  have bin: "hexToBinary h = padStart (concat (map ?f ?clean)) 256 CHR ''0''"
    unfolding hexToBinary_def Let_def fold_append_concat by simp
  have eq: "concat (map ?f ?clean) = binaryExpansion ?clean"
    using matches_clean_hex [OF assms] by (rule concat_nibbles)
  have "length (binaryExpansion ?clean) = 256"
    using matches_clean_length [OF assms] by (simp add: binaryExpansion_length del: One_nat_def)
  then show ?thesis unfolding bin eq by (simp add: padStart_def)
qed

lemma digitsValue_bits:
  "set bs \<subseteq> {CHR ''0'', CHR ''1''} \<Longrightarrow>
   digitsValue 2 acc bs = foldl (\<lambda>n c. 2 * n + (if c = CHR ''1'' then 1 else 0)) acc bs"
  by (induction bs arbitrary: acc) (auto simp add: digitValue_def mult.commute)

lemma bit_chars:
  "c \<in> {CHR ''0'', CHR ''1''} \<Longrightarrow>
   \<not> isWhiteSpace c \<and> c \<noteq> CHR ''+'' \<and> c \<noteq> CHR ''-'' \<and> isRadixDigit 2 c"
  by (auto simp add: isWhiteSpace_def isRadixDigit_def digitValue_def)

lemma parseInt_bits:
  assumes "bs \<noteq> []" and "set bs \<subseteq> {CHR ''0'', CHR ''1''}"
  shows "parseInt bs 2 = Num (int (bitsValue bs))"
proof -
  obtain c cs where bs: "bs = c # cs" using assms(1) by (cases bs) auto
  have c: "\<not> isWhiteSpace c \<and> c \<noteq> CHR ''+'' \<and> c \<noteq> CHR ''-'' \<and> isRadixDigit 2 c"
    using assms(2) bs by (intro bit_chars) auto
  have all: "takeWhile (isRadixDigit 2) bs = bs"
    using assms(2) bit_chars by (intro takeWhile_eq_all_conv [THEN iffD2]) blast
  have dw: "dropWhile isWhiteSpace bs = bs"
    using c bs by simp
  have sign: "(case bs of c # _ \<Rightarrow> if c = CHR ''-'' then - 1 else 1 | [] \<Rightarrow> (1::int)) = 1"
    using c bs by simp
  have S1: "(case bs of c # cs \<Rightarrow> if c = CHR ''+'' \<or> c = CHR ''-'' then cs else bs | [] \<Rightarrow> bs) = bs"
    using c bs by simp
  have "digitsValue 2 0 bs = bitsValue bs"
    using assms(2) by (simp add: digitsValue_bits bitsValue_def)
  then show ?thesis
    unfolding parseInt_def Let_def dw sign S1
    using assms(1) by (simp add: all)
qed


lemma slice_slice:
  "a + e \<le> b \<Longrightarrow> slice (slice s a b) c e = slice s (a + c) (a + e)"
  unfolding slice_def
  by (simp add: drop_take min_def add.commute)

lemma slice_subset: "set (slice B a b) \<subseteq> set B"
  unfolding slice_def
  by (meson set_take_subset set_drop_subset subset_trans)

lemma slice_nonempty: "length B = 256 \<Longrightarrow> a < b \<Longrightarrow> b \<le> 256 \<Longrightarrow> slice B a b \<noteq> []"
  by (simp add: slice_def)

lemma slice_field:
  assumes "length B = 256" and "set B \<subseteq> {CHR ''0'', CHR ''1''}" and "a < b" and "b \<le> 256"
  shows "toString (parseInt (slice B a b) 2) 10 = bitField B a b"
proof -
  have "slice B a b \<noteq> []" using assms(1,3,4) by (rule slice_nonempty)
  moreover have "set (slice B a b) \<subseteq> {CHR ''0'', CHR ''1''}"
    using slice_subset assms(2) by (rule subset_trans)
  ultimately show ?thesis by (simp add: parseInt_bits bitField_def)
qed

lemma decodePart_window:
  assumes "length B = 256" and "set B \<subseteq> {CHR ''0'', CHR ''1''}" and "b = a + 12" and "b \<le> 256"
  shows "decodePart (slice B a b) = alleleAt B a"
proof -
  have cls: "slice (slice B a b) 0 4 = slice B a (a + 4)"
    using slice_slice [of a 4 b B 0] assms(3) by simp
  have ident: "slice (slice B a b) 4 10 = slice B (a + 4) (a + 10)"
    using slice_slice [of a 10 b B 4] assms(3) by simp
  have "toString (parseInt (slice B (a + 4) (a + 10)) 2) 10 = bitField B (a + 4) (a + 10)"
    using assms by (intro slice_field) simp_all
  then show ?thesis
    by (simp add: decodePart_def Let_def cls ident alleleAt_def classCode_def del: toString.simps)
qed

lemma decodePartGene_window:
  assumes "length B = 256" and "set B \<subseteq> {CHR ''0'', CHR ''1''}" and "b = a + 36" and "b \<le> 256"
  shows "decodePartGene (slice B a b) = partAt B a"
proof -
  have w: "slice (slice B a b) 0 12 = slice B a (a + 12)"
          "slice (slice B a b) 12 24 = slice B (a + 12) (a + 24)"
          "slice (slice B a b) 24 36 = slice B (a + 24) (a + 36)"
    using slice_slice [of a 12 b B 0] slice_slice [of a 24 b B 12] slice_slice [of a 36 b B 24]
      assms(3) by simp_all
  have "decodePart (slice B a (a + 12)) = alleleAt B a"
       "decodePart (slice B (a + 12) (a + 24)) = alleleAt B (a + 12)"
       "decodePart (slice B (a + 24) (a + 36)) = alleleAt B (a + 24)"
    using assms by (simp_all add: decodePart_window)
  then show ?thesis by (simp add: decodePartGene_def w partAt_def)
qed

lemma decodePartGene_tail:
  assumes "length B = 256" and "set B \<subseteq> {CHR ''0'', CHR ''1''}"
  shows "decodePartGene (slice B 244 280) = \<lparr>d = alleleAt B 244, r1 = undecoded, r2 = undecoded\<rparr>"
proof -
  have "slice (slice B 244 280) 0 12 = slice B 244 256"
    using slice_slice [of 244 12 280 B 0] by simp
  moreover have "decodePart (slice B 244 256) = alleleAt B 244"
    using assms by (simp add: decodePart_window)
  ultimately show ?thesis
    using tail_recessive_windows [OF assms(1)]
    by (simp add: decodePartGene_def decodePart_empty undecoded_def)
qed

lemma decodeGenes_layout:
  assumes "matchesGenePattern h"
  shows "decodeGenes h =
     (let B = binaryExpansion (cleanHexOf h) in
      Inr \<lparr>genes_class = (case classCode B 0 of
                             None \<Rightarrow> beast
                           | Some name \<Rightarrow> (case map_of AXIE_CLASSES name of None \<Rightarrow> beast | Some c \<Rightarrow> c)),
           region = bitField B 4 9, tag = bitField B 9 13, bodySkin = bitField B 13 17,
           pattern = \<lparr>d = bitField B 17 23, r1 = bitField B 23 29, r2 = bitField B 29 35\<rparr>,
           color = \<lparr>d = bitField B 35 41, r1 = bitField B 41 47, r2 = bitField B 47 53\<rparr>,
           eyes = partAt B 64, ears = partAt B 136, mouth = partAt B 100, horn = partAt B 172,
           back_part = partAt B 208,
           tail = \<lparr>d = alleleAt B 244, r1 = undecoded, r2 = undecoded\<rparr>\<rparr>)"
proof -
  let ?B = "binaryExpansion (cleanHexOf h)"
  have bin: "hexToBinary h = ?B"
    using hexToBinary_valid [OF assms] by (simp add: cleanHexOf_def startsWith_0x)
  have len: "length ?B = 256"
    using matches_clean_length [OF assms]
    by (simp add: binaryExpansion_length cleanHexOf_def startsWith_0x del: One_nat_def)
  have bits: "set ?B \<subseteq> {CHR ''0'', CHR ''1''}"
    by (rule binaryExpansion_bits)
  note field = slice_field [OF len bits]
  note part = decodePartGene_window [OF len bits]
  show ?thesis
    unfolding decodeGenes_def bin Let_def
    by (simp add: field part decodePartGene_tail [OF len bits] getClassFromGene_def classCode_def
        del: toString.simps)
qed

text \<open>
  C4. For every input of sixty-four hex digits the fields are cut from fixed offsets of
  the 256-character binary string, but the six parts of 36 bits from offset 64 need 280
  bits: the tail gets the twelve bits \<open>[244, 256)\<close> only, and both recessive alleles of
  the tail are decoded from nothing, with class \<open>unknown\<close> and part id \<open>NaN\<close> whatever the
  input is. The claim's three 12-bit alleles with a decimal part id fail for the tail.
\<close>

theorem decodeGenes_tail_recessive_undecoded:
  "matchesGenePattern h \<Longrightarrow>
   \<exists>g. decodeGenes h = Inr g \<and>
       r1 (tail g) = \<lparr>allele_id = ''NaN'', allele_name = ''part-NaN'', allele_class = ''unknown''\<rparr> \<and>
       r2 (tail g) = \<lparr>allele_id = ''NaN'', allele_name = ''part-NaN'', allele_class = ''unknown''\<rparr>"
  using decodeGenes_tail [of h] matches_clean_length [of h] by (simp add: decodePart_empty)

theorem decodeGenes_tail_recessive_undecoded_witness:
  "matchesGenePattern allOnes \<and>
   (\<exists>g. decodeGenes allOnes = Inr g \<and>
       r1 (tail g) = \<lparr>allele_id = ''NaN'', allele_name = ''part-NaN'', allele_class = ''unknown''\<rparr> \<and>
       r2 (tail g) = \<lparr>allele_id = ''NaN'', allele_name = ''part-NaN'', allele_class = ''unknown''\<rparr>)"
  using decodeGenes_tail_recessive_undecoded [of allOnes] matchesGenePattern_allOnes by simp

text \<open>
  C1. As stated the claim fails: \<open>decodeGenes\<close> validates nothing and throws nothing.
  What holds: for every input that does not match the pattern, \<open>decodeGenes\<close> still
  returns a decoded structure, and it is \<open>isValidGene\<close> that reports the mismatch, by
  returning \<open>false\<close>.
\<close>

theorem decodeGenes_unvalidated:
  "\<not> matchesGenePattern s \<Longrightarrow> (\<exists>g. decodeGenes s = Inr g) \<and> \<not> isValidGene s"
  using decodeGenes_returns [of s] isValidGene_rejects [of s] by simp

theorem decodeGenes_unvalidated_witness:
  "\<not> matchesGenePattern ''invalid'' \<and>
   (\<exists>g. decodeGenes ''invalid'' = Inr g) \<and> \<not> isValidGene ''invalid''"
  using decodeGenes_unvalidated [of "''invalid''"] not_matchesGenePattern_invalid by simp

text \<open>
  The input \<open>invalid\<close> does not match the pattern, and \<open>decodeGenes\<close> returns this
  structure for it: no error.
\<close>

theorem decodeGenes_invalid_decoded:
  "\<not> matchesGenePattern ''invalid'' \<and>
   decodeGenes ''invalid'' =
     Inr \<lparr>genes_class = beast, region = ''0'', tag = ''0'', bodySkin = ''0'',
          pattern = \<lparr>d = ''0'', r1 = ''0'', r2 = ''0''\<rparr>,
          color = \<lparr>d = ''0'', r1 = ''0'', r2 = ''0''\<rparr>,
          eyes = partOf ''beast'' ''beast'' ''beast'',
          ears = partOf ''beast'' ''beast'' ''beast'',
          mouth = partOf ''beast'' ''beast'' ''beast'',
          horn = partOf ''beast'' ''beast'' ''beast'',
          back_part = partOf ''beast'' ''beast'' ''unknown'',
          tail = \<lparr>d = alleleOf ''unknown'',
                  r1 = \<lparr>allele_id = ''NaN'', allele_name = ''part-NaN'', allele_class = ''unknown''\<rparr>,
                  r2 = \<lparr>allele_id = ''NaN'', allele_name = ''part-NaN'', allele_class = ''unknown''\<rparr>\<rparr>\<rparr>"
  by code_simp


section \<open>Binary64 rounding\<close>

text \<open>
  The exponent that \<open>binade\<close> finds is the right one, and the rounded value is within
  half a unit in the last place of the exact one.
\<close>

lemma pow2_powi: "pow2 e = 2 powi e"
  by (simp add: pow2_def power_int_def power_one_over inverse_eq_divide)

lemma bitlen_powi:
  assumes "0 < (a::int)"
  shows "(2::rat) powi (bitlen a - 1) \<le> of_int a \<and> of_int a < (2::rat) powi (bitlen a)"
proof -
  have b: "2 ^ nat (bitlen a - 1) \<le> a \<and> a < 2 ^ nat (bitlen a)"
    using assms by (rule bitlen_bounds)
  have pos: "1 \<le> bitlen a"
    using assms by (auto simp add: bitlen_alt_def)
  have "(of_int (2 ^ nat (bitlen a - 1)) :: rat) \<le> of_int a"
    using b by (simp only: of_int_le_iff)
  moreover have "(of_int a :: rat) < of_int (2 ^ nat (bitlen a))"
    using b by (simp only: of_int_less_iff)
  ultimately show ?thesis
    using pos by (simp add: power_int_def)
qed

lemma binade_bounds:
  assumes "0 < x"
  shows "pow2 (binade x) \<le> x \<and> x < pow2 (binade x + 1)"
proof -
  obtain a b where q: "quotient_of x = (a, b)" by force
  have b: "0 < b" using q by (rule quotient_of_denom_pos)
  have x: "x = of_int a / of_int b" using q by (rule quotient_of_div)
  have a: "0 < a"
    using assms b unfolding x by (simp add: zero_less_divide_iff)
  let ?la = "bitlen a" and ?lb = "bitlen b"
  note A = bitlen_powi [OF a] and B = bitlen_powi [OF b]
  have p: "0 < (2::rat) powi n" for n by simp
  have upper: "x < 2 powi (?la - ?lb + 1)"
  proof -
    have "of_int a / of_int b < (2::rat) powi ?la / 2 powi (?lb - 1)"
      using A B a b by (intro frac_less) (simp_all add: p)
    also have "\<dots> = 2 powi (?la - (?lb - 1))"
      by (simp add: power_int_diff)
    finally show ?thesis unfolding x by (simp add: algebra_simps)
  qed
  have lower: "2 powi (?la - ?lb - 1) < x"
  proof -
    have "(2::rat) powi (?la - 1) / 2 powi ?lb < of_int a / of_int b"
      using A B a b by (intro frac_less2) (simp_all add: p)
    moreover have "(2::rat) powi (?la - 1) / 2 powi ?lb = 2 powi (?la - 1 - ?lb)"
      by (simp add: power_int_diff)
    ultimately show ?thesis unfolding x by (simp add: algebra_simps)
  qed
  show ?thesis
    using upper lower
    by (auto simp add: binade_def Let_def q pow2_powi not_le algebra_simps)
qed

lemma roundEven_nearest: "\<bar>of_int (roundEven q) - q\<bar> \<le> 1 / 2"
proof -
  have "of_int \<lfloor>q\<rfloor> \<le> q" and "q < of_int \<lfloor>q\<rfloor> + 1"
    by linarith+
  then show ?thesis
    by (auto simp add: roundEven_def Let_def abs_le_iff)
qed

lemma round64_half_ulp:
  assumes "0 < x"
  shows "\<bar>round64 x - x\<bar> \<le> pow2 (binade x - 53)"
proof -
  let ?e = "binade x"
  have p: "0 < (2::rat) powi n" for n by simp
  have r: "round64 x = of_int (roundEven (x * 2 powi (52 - ?e))) * 2 powi (?e - 52)"
    using assms by (simp add: round64_def Let_def pow2_powi)
  have s: "x = (x * 2 powi (52 - ?e)) * 2 powi (?e - 52)"
    by (simp add: power_int_diff)
  have "\<bar>round64 x - x\<bar> =
        \<bar>of_int (roundEven (x * 2 powi (52 - ?e))) - x * 2 powi (52 - ?e)\<bar> * 2 powi (?e - 52)"
    unfolding r by (subst (2) s) (simp add: left_diff_distrib [symmetric] abs_mult del: power_int_diff)
  also have "\<dots> \<le> 1 / 2 * 2 powi (?e - 52)"
    using roundEven_nearest [of "x * 2 powi (52 - ?e)"] p [of "?e - 52"]
    by (intro mult_right_mono) simp_all
  also have "\<dots> = 2 powi (?e - 53)"
    by (simp add: power_int_diff)
  finally show ?thesis by (simp add: pow2_powi)
qed

section \<open>Purity\<close>

lemma purity_doubles:
  "list_all (\<lambda>k. fmul (fdiv (of_nat k) 6) 100 = purityDoubles ! k \<and>
                 0 \<le> purityDoubles ! k \<and> purityDoubles ! k \<le> 100 \<and>
                 \<bar>purityDoubles ! k - of_nat k / 6 * 100\<bar> \<le> 1 / 2 ^ 46)
     [0..<7]"
  by code_simp

lemma matchingParts_le: "matchingParts g \<le> 6"
  unfolding matchingParts_def
  by (rule order_trans [OF length_filter_le]) simp

lemma calculatePurity_count:
  "calculatePurity g = fmul (fdiv (of_nat (matchingParts g)) 6) 100"
  by (simp add: calculatePurity_def matchingParts_def parts_def Let_def)

text \<open>
  C5. \<open>calculatePurity\<close> returns \<open>(matchingParts / 6) * 100\<close> as the code computes it, in
  binary64, where \<open>matchingParts\<close> counts the parts among eyes, ears, mouth, horn, back
  and tail whose dominant allele has the class of the Axie. The result is one of seven
  doubles, it lies between 0 and 100, and it is within \<open>2 ^ -46\<close> of the exact value.
\<close>

theorem calculatePurity_formula:
  "calculatePurity g = fmul (fdiv (of_nat (matchingParts g)) 6) 100 \<and>
   calculatePurity g = purityDoubles ! matchingParts g \<and>
   0 \<le> calculatePurity g \<and> calculatePurity g \<le> 100 \<and>
   \<bar>calculatePurity g - of_nat (matchingParts g) / 6 * 100\<bar> \<le> 1 / 2 ^ 46"
proof -
  let ?k = "matchingParts g"
  have "?k \<in> set [0..<7]"
    using matchingParts_le [of g] by simp
  then have "fmul (fdiv (of_nat ?k) 6) 100 = purityDoubles ! ?k \<and>
             0 \<le> purityDoubles ! ?k \<and> purityDoubles ! ?k \<le> 100 \<and>
             \<bar>purityDoubles ! ?k - of_nat ?k / 6 * 100\<bar> \<le> 1 / 2 ^ 46"
    using purity_doubles unfolding list_all_iff by blast
  then show ?thesis
    by (simp add: calculatePurity_count)
qed

lemma matchingParts_beastWithEyes: "matchingParts (beastWithEyes ''bird'') = 5"
  by (simp add: matchingParts_def beastWithEyes_def partOf_def alleleOf_def)

theorem calculatePurity_formula_witness:
  "calculatePurity (beastWithEyes ''bird'') = 2932031007402667 / 35184372088832"
  using calculatePurity_formula [of "beastWithEyes ''bird''"] matchingParts_beastWithEyes
  by (simp add: purityDoubles_def)

section \<open>Stats\<close>

lemma className_not_inherited: "className c \<notin> set OBJECT_PROTOTYPE"
  by (cases c) (simp_all add: OBJECT_PROTOTYPE_def)

lemma className_own_base: "\<exists>s. getProperty BASE_STATS (className c) = Own s"
  by (cases c) (simp_all add: getProperty_def BASE_STATS_def)

text \<open>The bit strings that index \<open>CLASS_HEX\<close> are too short to name an inherited member.\<close>

lemma inherited_keys_long: "list_all (\<lambda>k. 4 < length k) OBJECT_PROTOTYPE"
  by code_simp

lemma short_key_not_inherited: "length k \<le> 4 \<Longrightarrow> k \<notin> set OBJECT_PROTOTYPE"
  using inherited_keys_long by (auto simp add: list_all_iff)

lemma inherited_no_bonus_entry:
  "list_all (\<lambda>c. map_of PART_STAT_BONUS c = None) OBJECT_PROTOTYPE"
  by code_simp

lemma bonusFor_inherited: "c \<in> set OBJECT_PROTOTYPE \<Longrightarrow> bonusFor c = noStats"
  using inherited_no_bonus_entry by (simp add: bonusFor_def getProperty_def list_all_iff)

lemma bonusFor_table:
  "c \<notin> set OBJECT_PROTOTYPE \<Longrightarrow>
   bonusFor c = (case map_of PART_STAT_BONUS c of Some b \<Rightarrow> b | None \<Rightarrow> statsOf 0 0 0 0)"
  by (simp add: bonusFor_def getProperty_def split: option.splits)

text \<open>
  The stats are the base stats of the class plus the six bonuses, each looked up by the
  class of the part's dominant allele.
\<close>

lemma calculateStats_sum:
  "calculateStats g =
     (let b = baseStatsFor (className (genes_class g));
          bonus = (\<lambda>part. bonusFor (allele_class (d (part g))));
          total = (\<lambda>f. plus_number (plus_number (plus_number (plus_number (plus_number
                    (plus_number (f b) (f (bonus eyes))) (f (bonus ears))) (f (bonus mouth)))
                    (f (bonus horn))) (f (bonus back_part))) (f (bonus tail)))
      in \<lparr>hp = total hp, speed = total speed, skill = total skill, morale = total morale\<rparr>)"
  by (simp add: calculateStats_def parts_def Let_def)

lemma baseStatsFor_className: "baseStatsFor (className c) = tableBase c"
  using className_not_inherited [of c]
  by (simp add: baseStatsFor_def tableBase_def getProperty_def split: option.splits)

lemma calculateStats_table:
  assumes "list_all (\<lambda>p. allele_class (d p) \<notin> set OBJECT_PROTOTYPE)
             [eyes g, ears g, mouth g, horn g, back_part g, tail g]"
  shows "calculateStats g = tableStats g"
  using assms
  by (simp add: calculateStats_sum baseStatsFor_className bonusFor_table tableBonus_def
      tableStats_def addStats_def Let_def)

lemma decoded_classes_not_inherited:
  "list_all (\<lambda>c. c \<notin> set OBJECT_PROTOTYPE) (''unknown'' # map snd CLASS_HEX)"
  by code_simp

lemma decodePart_class_known:
  "allele_class (decodePart bits) \<in> set (''unknown'' # map snd CLASS_HEX)"
  by (auto simp add: decodePart_def Let_def split: option.splits dest: map_of_SomeD
      intro: rev_image_eqI)

lemma decodePart_class: "allele_class (decodePart bits) \<notin> set OBJECT_PROTOTYPE"
  using decodePart_class_known [of bits] decoded_classes_not_inherited
  unfolding list_all_iff by blast

lemma decodeGenes_classes:
  "decodeGenes h = Inr g \<Longrightarrow>
   list_all (\<lambda>p. allele_class (d p) \<notin> set OBJECT_PROTOTYPE)
     [eyes g, ears g, mouth g, horn g, back_part g, tail g]"
  by (auto simp add: decodeGenes_def Let_def decodePartGene_def decodePart_class)

text \<open>
  With a dominant allele of class \<open>constructor\<close>, which no decoded gene has, the lookup
  finds the inherited member and the stats are \<open>NaN\<close>.
\<close>

lemma calculateStats_inherited_key:
  "calculateStats (beastWithEyes ''constructor'') =
     \<lparr>hp = NaN, speed = NaN, skill = NaN, morale = NaN\<rparr> \<and>
   calculateStats (beastWithEyes ''unknown'') =
     \<lparr>hp = Num 31, speed = Num 40, skill = Num 31, morale = Num 58\<rparr>"
  by code_simp

text \<open>
  C6. For every decoded gene, and for every value whose six dominant alleles have a
  class that names no inherited member of an object, \<open>calculateStats\<close> returns the base
  stats of the class of the Axie (those of \<open>beast\<close> if the table had no entry) plus the
  sum over the six parts of the bonus entry of the class of the part's dominant allele,
  added to each of hp, speed, skill and morale; a class without an entry, as \<open>unknown\<close>,
  adds zero.
\<close>

theorem calculateStats_base_plus_bonuses:
  "(decodeGenes h = Inr g \<longrightarrow> calculateStats g = tableStats g) \<and>
   (list_all (\<lambda>p. allele_class (d p) \<notin> set OBJECT_PROTOTYPE)
      [eyes g', ears g', mouth g', horn g', back_part g', tail g'] \<longrightarrow>
    calculateStats g' = tableStats g') \<and>
   tableBonus ''unknown'' = statsOf 0 0 0 0"
  using calculateStats_table [of g'] calculateStats_table [OF decodeGenes_classes, of h g]
  by (simp add: tableBonus_def PART_STAT_BONUS_def)

theorem calculateStats_base_plus_bonuses_witness:
  "(\<exists>g. decodeGenes allOnes = Inr g \<and> calculateStats g = tableStats g) \<and>
   calculateStats (beastWithEyes ''unknown'') = tableStats (beastWithEyes ''unknown'')"
proof -
  obtain g where g: "decodeGenes allOnes = Inr g"
    using decodeGenes_returns by blast
  have "list_all (\<lambda>p. allele_class (d p) \<notin> set OBJECT_PROTOTYPE)
          [eyes (beastWithEyes ''unknown''), ears (beastWithEyes ''unknown''),
           mouth (beastWithEyes ''unknown''), horn (beastWithEyes ''unknown''),
           back_part (beastWithEyes ''unknown''), tail (beastWithEyes ''unknown'')]"
    by code_simp
  then show ?thesis
    using g calculateStats_base_plus_bonuses [of allOnes g "beastWithEyes ''unknown''"]
    by blast
qed

lemma tableStats_samples:
  "tableStats (beastWithEyes ''unknown'') =
     \<lparr>hp = Num 31, speed = Num 40, skill = Num 31, morale = Num 58\<rparr> \<and>
   tableStats (beastWithEyes ''plant'') =
     \<lparr>hp = Num 34, speed = Num 40, skill = Num 31, morale = Num 59\<rparr>"
  by code_simp

section \<open>Inheritance probabilities\<close>

lemma sum_update:
  "sum_list (map snd (AList.update k v al)) =
     sum_list (map snd al) - (case map_of al k of None \<Rightarrow> 0 | Some w \<Rightarrow> w) + (v::rat)"
  by (induction al) auto

lemma sum_setProbability:
  "sum_list (map snd (setProbability e al)) = sum_list (map snd al) + snd e"
  by (simp add: setProbability_def Let_def sum_update split: option.splits)

lemma sum_fold_setProbability:
  "sum_list (map snd (fold setProbability es al)) = sum_list (map snd al) + sum_list (map snd es)"
  by (induction es arbitrary: al) (simp_all add: sum_setProbability)

lemma map_of_setProbability:
  "map_of (setProbability e al) k =
     (if geneKey (fst e) = k
      then Some ((case map_of al k of None \<Rightarrow> 0 | Some p \<Rightarrow> p) + snd e)
      else map_of al k)"
  by (simp add: setProbability_def Let_def update_conv)

lemma map_of_fold_setProbability:
  "map_of (fold setProbability es al) k =
     (case map_of al k of
        None \<Rightarrow> if keyWeights k es = [] then None else Some (sum_list (keyWeights k es))
      | Some p \<Rightarrow> Some (p + sum_list (keyWeights k es)))"
proof (induction es arbitrary: al)
  case Nil
  then show ?case by (simp add: keyWeights_def split: option.splits)
next
  case (Cons e es)
  show ?case
    by (simp add: Cons.IH map_of_setProbability keyWeights_def split: option.splits)
qed

lemma distinct_setProbability:
  "distinct (map fst al) \<Longrightarrow> distinct (map fst (setProbability e al))"
  by (simp add: setProbability_def Let_def distinct_update)

lemma length_update_le: "length (AList.update k v al) \<le> Suc (length al)"
  by (induction al) auto

lemma length_setProbability: "length (setProbability e al) \<le> Suc (length al)"
  by (simp add: setProbability_def Let_def length_update_le)

lemma fold_setProbability_shape:
  "distinct (map fst al) \<Longrightarrow>
   distinct (map fst (fold setProbability es al)) \<and>
   length (fold setProbability es al) \<le> length al + length es"
proof (induction es arbitrary: al)
  case Nil
  then show ?case by simp
next
  case (Cons e es)
  have "distinct (map fst (setProbability e al))"
    using Cons.prems by (rule distinct_setProbability)
  then have "distinct (map fst (fold setProbability es (setProbability e al))) \<and>
     length (fold setProbability es (setProbability e al)) \<le> length (setProbability e al) + length es"
    by (rule Cons.IH)
  then show ?case using length_setProbability [of e al] by simp
qed

text \<open>
  The key of an allele is its class, a hyphen and its part id. Two alleles whose classes
  have no hyphen share a key only when they share class and part id, and no class that
  \<open>decodePart\<close> produces has a hyphen.
\<close>

lemma takeWhile_upto: "x \<notin> set xs \<Longrightarrow> takeWhile (\<lambda>c. c \<noteq> x) (xs @ x # ys) = xs"
  by (induction xs) auto

lemma geneKey_class:
  "CHR ''-'' \<notin> set (allele_class a) \<Longrightarrow>
   takeWhile (\<lambda>c. c \<noteq> CHR ''-'') (geneKey a) = allele_class a"
  by (simp add: geneKey_def takeWhile_upto)

lemma geneKey_inj:
  assumes "CHR ''-'' \<notin> set (allele_class a)" and "CHR ''-'' \<notin> set (allele_class b)"
  shows "(geneKey a = geneKey b) = (allele_class a = allele_class b \<and> allele_id a = allele_id b)"
proof
  assume eq: "geneKey a = geneKey b"
  then have "allele_class a = allele_class b"
    using geneKey_class [OF assms(1)] geneKey_class [OF assms(2)] by simp
  with eq show "allele_class a = allele_class b \<and> allele_id a = allele_id b"
    by (simp add: geneKey_def)
next
  assume "allele_class a = allele_class b \<and> allele_id a = allele_id b"
  then show "geneKey a = geneKey b" by (simp add: geneKey_def)
qed

lemma decoded_classes_no_hyphen:
  "list_all (\<lambda>c. CHR ''-'' \<notin> set c) (''unknown'' # map snd CLASS_HEX)"
  by code_simp

lemma decodePart_no_hyphen: "CHR ''-'' \<notin> set (allele_class (decodePart bits))"
proof -
  have "allele_class (decodePart bits) \<in> set (''unknown'' # map snd CLASS_HEX)"
    by (rule decodePart_class_known)
  then show ?thesis
    using decoded_classes_no_hyphen unfolding list_all_iff by blast
qed

lemma keys_fold_setProbability:
  "fst ` set (fold setProbability es al) = fst ` set al \<union> (\<lambda>e. geneKey (fst e)) ` set es"
proof (induction es arbitrary: al)
  case Nil
  then show ?case by simp
next
  case (Cons e es)
  have "fst ` set (setProbability e al) = {geneKey (fst e)} \<union> fst ` set al"
    by (simp add: setProbability_def Let_def dom_update)
  then show ?case by (simp add: Cons.IH Un_commute Un_left_commute)
qed

lemma allGenes_hyphenFree:
  "hyphenFree p1 \<Longrightarrow> hyphenFree p2 \<Longrightarrow> e \<in> set (allGenes p1 p2) \<Longrightarrow>
   CHR ''-'' \<notin> set (allele_class (fst e))"
  by (auto simp add: hyphenFree_def allGenes_def)

lemma geneKey_pair:
  assumes "CHR ''-'' \<notin> set (allele_class a)" and "CHR ''-'' \<notin> set (allele_class b)"
  shows "(geneKey a = geneKey b) = (pairOf a = pairOf b)"
  using geneKey_inj [OF assms] by (simp add: pairOf_def)

lemma keyWeights_pairWeights:
  assumes "\<And>e. e \<in> set es \<Longrightarrow> CHR ''-'' \<notin> set (allele_class (fst e))"
    and "CHR ''-'' \<notin> set (allele_class a)"
  shows "keyWeights (geneKey a) es = pairWeights (pairOf a) es"
proof -
  have "filter (\<lambda>e. geneKey (fst e) = geneKey a) es = filter (\<lambda>e. pairOf (fst e) = pairOf a) es"
    using assms by (intro filter_cong refl geneKey_pair) auto
  then show ?thesis by (simp add: keyWeights_def pairWeights_def)
qed

lemma card_keys_pairs:
  assumes "\<And>a. a \<in> A \<Longrightarrow> CHR ''-'' \<notin> set (allele_class a)"
  shows "card (geneKey ` A) = card (pairOf ` A)"
proof -
  let ?h = "\<lambda>p. fst p @ ''-'' @ snd p"
  have "geneKey ` A = ?h ` (pairOf ` A)"
    by (auto simp add: geneKey_def pairOf_def image_iff)
  moreover have "inj_on ?h (pairOf ` A)"
  proof (rule inj_onI)
    fix x y
    assume "x \<in> pairOf ` A" and "y \<in> pairOf ` A" and eq: "?h x = ?h y"
    then obtain a b where a: "a \<in> A" "x = pairOf a" and b: "b \<in> A" "y = pairOf b"
      by auto
    have "geneKey a = geneKey b"
      using eq a b by (simp add: geneKey_def pairOf_def)
    then show "x = y"
      using geneKey_pair [OF assms [OF a(1)] assms [OF b(1)]] a b by simp
  qed
  ultimately show ?thesis by (simp add: card_image)
qed

lemma decodePartGene_hyphenFree: "hyphenFree (decodePartGene bits)"
  by (simp add: hyphenFree_def decodePartGene_def decodePart_no_hyphen)

text \<open>
  C8. The six weighted alleles are the dominant, first and second recessive allele of
  each parent with the weights 0.375, 0.09375 and 0.03125. For parents whose classes
  have no hyphen, as every decoded part gene has, the map holds under the key of each
  allele the sum of the weights of the alleles with the same (class, part-id) pair; its
  keys are the keys of the six alleles, they are distinct, and they are as many as
  there are distinct (class, part-id) pairs among the alleles, at most six.
\<close>

theorem inheritance_distribution:
  assumes "hyphenFree p1" and "hyphenFree p2"
  shows
    "allGenes p1 p2 =
       [(d p1, 3 / 8), (r1 p1, 3 / 32), (r2 p1, 1 / 32),
        (d p2, 3 / 8), (r1 p2, 3 / 32), (r2 p2, 1 / 32)] \<and>
     ((a, w) \<in> set (allGenes p1 p2) \<longrightarrow>
        map_of (calculateBreedingProbability p1 p2) (geneKey a) =
          Some (sum_list (pairWeights (pairOf a) (allGenes p1 p2)))) \<and>
     fst ` set (calculateBreedingProbability p1 p2) = geneKey ` fst ` set (allGenes p1 p2) \<and>
     distinct (map fst (calculateBreedingProbability p1 p2)) \<and>
     length (calculateBreedingProbability p1 p2) = card (pairOf ` fst ` set (allGenes p1 p2)) \<and>
     length (calculateBreedingProbability p1 p2) \<le> 6"
proof -
  let ?es = "allGenes p1 p2"
  let ?m = "calculateBreedingProbability p1 p2"
  have free: "CHR ''-'' \<notin> set (allele_class (fst e))" if "e \<in> set ?es" for e
    using assms that by (rule allGenes_hyphenFree)
  have weights: "?es = [(d p1, 3 / 8), (r1 p1, 3 / 32), (r2 p1, 1 / 32),
                        (d p2, 3 / 8), (r1 p2, 3 / 32), (r2 p2, 1 / 32)]"
    by (simp add: allGenes_def)
  have shape: "distinct (map fst ?m) \<and> length ?m \<le> 6"
    using fold_setProbability_shape [of "[]" ?es]
    by (simp add: calculateBreedingProbability_def) (simp add: allGenes_def)
  have keys: "fst ` set ?m = geneKey ` fst ` set ?es"
    by (simp add: calculateBreedingProbability_def keys_fold_setProbability image_image)
  have sums: "map_of ?m (geneKey a) = Some (sum_list (pairWeights (pairOf a) ?es))"
    if "(a, w) \<in> set ?es"
  proof -
    have a: "CHR ''-'' \<notin> set (allele_class a)" using free [OF that] by simp
    have eq: "keyWeights (geneKey a) ?es = pairWeights (pairOf a) ?es"
      using free a by (rule keyWeights_pairWeights)
    have "w \<in> set (pairWeights (pairOf a) ?es)"
      using that by (force simp add: pairWeights_def)
    then have "pairWeights (pairOf a) ?es \<noteq> []" by auto
    then show ?thesis
      by (simp add: calculateBreedingProbability_def map_of_fold_setProbability eq)
  qed
  have "length ?m = card (set (map fst ?m))"
    using shape distinct_card [of "map fst ?m"] by simp
  also have "\<dots> = card (geneKey ` fst ` set ?es)"
    using keys by simp
  also have "\<dots> = card (pairOf ` fst ` set ?es)"
    by (rule card_keys_pairs) (use free in auto)
  finally have count: "length ?m = card (pairOf ` fst ` set ?es)" .
  show ?thesis
    using weights shape keys sums count by blast
qed

theorem inheritance_distribution_witness:
  "hyphenFree (decodePartGene bitsBugBugBird) \<and> hyphenFree (decodePartGene bitsBugPlantBug) \<and>
   map_of (calculateBreedingProbability (decodePartGene bitsBugBugBird)
             (decodePartGene bitsBugPlantBug))
     (geneKey (d (decodePartGene bitsBugBugBird))) =
     Some (sum_list (pairWeights (pairOf (d (decodePartGene bitsBugBugBird)))
             (allGenes (decodePartGene bitsBugBugBird) (decodePartGene bitsBugPlantBug)))) \<and>
   length (calculateBreedingProbability (decodePartGene bitsBugBugBird)
             (decodePartGene bitsBugPlantBug)) \<le> 6"
proof -
  have "(d (decodePartGene bitsBugBugBird), 3 / 8) \<in>
        set (allGenes (decodePartGene bitsBugBugBird) (decodePartGene bitsBugPlantBug))"
    by (simp add: allGenes_def)
  then show ?thesis
    using inheritance_distribution [OF decodePartGene_hyphenFree decodePartGene_hyphenFree,
        of bitsBugBugBird bitsBugPlantBug "d (decodePartGene bitsBugBugBird)" "3 / 8"]
      decodePartGene_hyphenFree
    by blast
qed

lemma inheritance_distribution_sample:
  "calculateBreedingProbability (decodePartGene bitsBugBugBird) (decodePartGene bitsBugPlantBug) =
     [(''bug-1'', 7 / 8), (''bird-1'', 1 / 32), (''plant-1'', 3 / 32)]"
  by code_simp

text \<open>
  Two alleles with different (class, part-id) pairs share a key when a class has a
  hyphen: their weights are then summed under one key. No decoded class has one.
\<close>

lemma geneKey_collision:
  "geneKey \<lparr>allele_id = ''c'', allele_name = ''part-c'', allele_class = ''a-b''\<rparr> =
   geneKey \<lparr>allele_id = ''b-c'', allele_name = ''part-b-c'', allele_class = ''a''\<rparr>"
  by (simp add: geneKey_def)

text \<open>
  C10. The values of the map returned by \<open>calculateBreedingProbability\<close> sum to 1, for
  every pair of parent part genes.
\<close>

theorem probabilities_sum_to_one:
  "sum_list (map snd (calculateBreedingProbability parent1Gene parent2Gene)) = 1"
  unfolding calculateBreedingProbability_def sum_fold_setProbability
  by (simp add: allGenes_def)

theorem probabilities_sum_to_one_witness:
  "sum_list (map snd (calculateBreedingProbability (partOf ''bug'' ''bug'' ''bird'')
                        (partOf ''bug'' ''plant'' ''bug''))) = 1"
  by (rule probabilities_sum_to_one)

section \<open>Class advantage\<close>

lemma getClassAdvantage_self: "getClassAdvantage X X = 1"
  by (cases X) (simp_all add: getClassAdvantage_def CLASS_ADVANTAGES_def)

lemma getClassAdvantage_weak_then_strong:
  "getClassAdvantage X Y = 85 / 100 \<Longrightarrow> getClassAdvantage Y X = 115 / 100"
  by (cases X; cases Y) (simp_all add: getClassAdvantage_def CLASS_ADVANTAGES_def)

text \<open>The pairs of classes that each list the other as beaten.\<close>

lemma getClassAdvantage_mutual_pairs:
  "(getClassAdvantage X Y = 115 / 100 \<and> getClassAdvantage Y X = 115 / 100) =
   ((X, Y) \<in> {(beast, dusk), (dusk, beast), (bug, mech), (mech, bug), (plant, dawn), (dawn, plant)})"
  by (cases X; cases Y) (simp_all add: getClassAdvantage_def CLASS_ADVANTAGES_def)

text \<open>
  C2. The table is not consistent: \<open>beast\<close> lists \<open>dusk\<close> and \<open>dusk\<close> lists \<open>beast\<close>, so
  the multiplier is 1.15 in both directions, where the claim has 0.85 in one of them.
\<close>

theorem getClassAdvantage_beast_dusk:
  "getClassAdvantage beast dusk = 115 / 100 \<and> getClassAdvantage dusk beast = 115 / 100"
  by (simp add: getClassAdvantage_def CLASS_ADVANTAGES_def)

section \<open>Breeding\<close>

lemma slpCostOf_table: "0 \<le> n \<Longrightarrow> n < 7 \<Longrightarrow> slpCostOf n = SLP_BY_BREED_COUNT ! nat n"
  by (simp add: slpCostOf_def SLP_BY_BREED_COUNT_def)

lemma canBreedTogether_eligible:
  "pair_canBreed (canBreedTogether axie1 axie2) \<Longrightarrow>
   breedCount axie1 < 7 \<and> breedCount axie2 < 7 \<and> 4 \<le> stage axie1 \<and> 4 \<le> stage axie2"
  by (simp add: canBreedTogether_def canBreed_def Let_def MAX_BREED_COUNT_def split: if_splits)

text \<open>
  C7. The SLP cost of an Axie is the entry of the seven-entry table at its breed count,
  900 at 0 and 15300 at 6; the AXS cost of a pairing is 0.5 whatever the breed counts,
  and the SLP cost of a pairing is the sum of the two entries, 1800 for two parents of
  breed count 0; an Axie of breed count 7 or more cannot breed, with a reason that says
  the maximum breed count is reached, and no pair with such an Axie can breed.
\<close>

theorem breeding_costs:
  "length SLP_BY_BREED_COUNT = 7 \<and> slpCostOf 0 = 900 \<and> slpCostOf 6 = 15300 \<and>
   (0 \<le> breedCount a \<and> breedCount a < 7 \<and> 4 \<le> stage a \<longrightarrow>
      canBreed a = \<lparr>info_canBreed = True, axsCost = 1 / 2,
                     slpCost = SLP_BY_BREED_COUNT ! nat (breedCount a), info_reason = None\<rparr>) \<and>
   calculateBreedingCost a1 a2 =
     \<lparr>cost_axs = 1 / 2, cost_slp = slpCostOf (breedCount a1) + slpCostOf (breedCount a2)\<rparr> \<and>
   (breedCount a1 = 0 \<and> breedCount a2 = 0 \<longrightarrow>
      calculateBreedingCost a1 a2 = \<lparr>cost_axs = 1 / 2, cost_slp = 1800\<rparr>) \<and>
   (7 \<le> breedCount a' \<longrightarrow>
      canBreed a' = \<lparr>info_canBreed = False, axsCost = 0, slpCost = 0,
                      info_reason = Some ''Maximum breed count reached (7)''\<rparr>) \<and>
   (7 \<le> breedCount b1 \<or> 7 \<le> breedCount b2 \<longrightarrow> \<not> pair_canBreed (canBreedTogether b1 b2))"
proof -
  have "7 \<le> breedCount b1 \<or> 7 \<le> breedCount b2 \<longrightarrow> \<not> pair_canBreed (canBreedTogether b1 b2)"
    using canBreedTogether_eligible [of b1 b2] by auto
  then show ?thesis
    by (simp add: slpCostOf_table canBreed_def calculateBreedingCost_def AXS_PER_BREED_def
        MAX_BREED_COUNT_def)
       (simp add: slpCostOf_def SLP_BY_BREED_COUNT_def)
qed

theorem breeding_costs_witness:
  "canBreed (axieOf ''1'' ''0'' ''0'' 6 4) =
     \<lparr>info_canBreed = True, axsCost = 1 / 2, slpCost = 15300, info_reason = None\<rparr> \<and>
   calculateBreedingCost (axieOf ''1'' ''0'' ''0'' 0 4) (axieOf ''2'' ''0'' ''0'' 0 4) =
     \<lparr>cost_axs = 1 / 2, cost_slp = 1800\<rparr> \<and>
   canBreed (axieOf ''3'' ''0'' ''0'' 7 4) =
     \<lparr>info_canBreed = False, axsCost = 0, slpCost = 0,
      info_reason = Some ''Maximum breed count reached (7)''\<rparr> \<and>
   \<not> pair_canBreed (canBreedTogether (axieOf ''3'' ''0'' ''0'' 7 4) (axieOf ''2'' ''0'' ''0'' 0 4))"
  using breeding_costs [of "axieOf ''1'' ''0'' ''0'' 6 4" "axieOf ''1'' ''0'' ''0'' 0 4"
      "axieOf ''2'' ''0'' ''0'' 0 4" "axieOf ''3'' ''0'' ''0'' 7 4"
      "axieOf ''3'' ''0'' ''0'' 7 4" "axieOf ''2'' ''0'' ''0'' 0 4"]
  by (simp add: axieOf_def SLP_BY_BREED_COUNT_def)

lemma first_if_append:
  "(case (if c then [m] else []) @ rest of [] \<Rightarrow> a | x # _ \<Rightarrow> f x) =
   (if c then f m else (case rest of [] \<Rightarrow> a | x # _ \<Rightarrow> f x))"
  by simp

lemma first_if:
  "(case (if c then [m] else []) of [] \<Rightarrow> a | x # _ \<Rightarrow> f x) = (if c then f m else a)"
  by simp

text \<open>
  C3. As stated the claim fails: \<open>canBreedTogether\<close> returns at the first condition that
  fails. What holds: the pair can breed exactly when no condition fails, and otherwise
  the result carries one reason, that of the first failing condition in the order
  self, parent, siblings, then breed count and stage of the first Axie, then of the
  second.
\<close>

theorem canBreedTogether_first_failure:
  "canBreedTogether axie1 axie2 =
     (case failingConditions axie1 axie2 of
        [] \<Rightarrow> \<lparr>pair_canBreed = True, pair_reason = None\<rparr>
      | m # _ \<Rightarrow> \<lparr>pair_canBreed = False, pair_reason = Some m\<rparr>)"
  unfolding failingConditions_def first_if_append first_if
  by (simp add: canBreedTogether_def canBreed_def Let_def MAX_BREED_COUNT_def reasonText_def)

lemma failingConditions_sample:
  "failingConditions (axieOf ''1'' ''0'' ''0'' 7 4) (axieOf ''2'' ''0'' ''0'' 0 2) =
     [''Axie 1: Maximum breed count reached (7)'', ''Axie 2: Axie must be an adult to breed'']"
  by (simp add: failingConditions_def axieOf_def)

theorem canBreedTogether_first_failure_witness:
  "canBreedTogether (axieOf ''1'' ''0'' ''0'' 7 4) (axieOf ''2'' ''0'' ''0'' 0 2) =
     \<lparr>pair_canBreed = False, pair_reason = Some ''Axie 1: Maximum breed count reached (7)''\<rparr>"
  using canBreedTogether_first_failure [of "axieOf ''1'' ''0'' ''0'' 7 4" "axieOf ''2'' ''0'' ''0'' 0 2"]
  by (simp add: failingConditions_sample)

text \<open>
  Two conditions fail for this pair, the breed count of the first Axie and the stage of
  the second; the result reports the first and does not mention the second.
\<close>

theorem canBreedTogether_reports_one:
  "failingConditions (axieOf ''1'' ''0'' ''0'' 7 4) (axieOf ''2'' ''0'' ''0'' 0 2) =
     [''Axie 1: Maximum breed count reached (7)'', ''Axie 2: Axie must be an adult to breed''] \<and>
   canBreedTogether (axieOf ''1'' ''0'' ''0'' 7 4) (axieOf ''2'' ''0'' ''0'' 0 2) =
     \<lparr>pair_canBreed = False, pair_reason = Some ''Axie 1: Maximum breed count reached (7)''\<rparr> \<and>
   \<not> reportsEvery (canBreedTogether (axieOf ''1'' ''0'' ''0'' 7 4) (axieOf ''2'' ''0'' ''0'' 0 2))
        (failingConditions (axieOf ''1'' ''0'' ''0'' 7 4) (axieOf ''2'' ''0'' ''0'' 0 2))"
  by code_simp

end
